theory Spec2Isabelle
  imports Complex_Main "HOL-Library.Log_Nat"
begin

section \<open>Data classes\<close>

text \<open>
  The module \<^verbatim>\<open>src/git/worktree_manager.py\<close> keeps one row per agent in the SQLite
  table \<^verbatim>\<open>worktrees\<close> and drives \<^verbatim>\<open>git\<close> through \<^verbatim>\<open>subprocess.run\<close>.

  Conventions of the embedding.
  \<^item> A Python \<^verbatim>\<open>str\<close> is a \<^typ>\<open>string\<close>; its characters are the code points below 256.
  \<^item> A \<^verbatim>\<open>pathlib.Path\<close> is represented by its \<^verbatim>\<open>str()\<close> form, so \<^verbatim>\<open>str(p)\<close> and
    \<^verbatim>\<open>Path(str(p))\<close> are the identity. The operator \<^verbatim>\<open>/\<close> belongs to pathlib, not to this
    module, and is a parameter (\<open>joinpath\<close>).
  \<^item> A timezone-aware UTC \<^verbatim>\<open>datetime\<close> is the number of microseconds since the epoch.
    The table stores \<^verbatim>\<open>isoformat()\<close> text and reads it back with \<^verbatim>\<open>fromisoformat\<close>; on
    such values the two are inverse and the text order is the chronological order, so a
    column holds the \<open>datetime\<close> itself.
  \<^item> The clock reading \<^verbatim>\<open>datetime.now(timezone.utc)\<close> of an operation is its argument
    \<open>now\<close>.
  \<^item> A Python \<^verbatim>\<open>float\<close> is an IEEE 754 binary64 number, represented by the rational it
    denotes; an operation rounds its exact result to the nearest such number, ties to even
    (\<open>fl\<close>). The exponent range is not bounded: the quotients computed here, from spans of
    at most 9999 years counted in microseconds, are far from overflow and from the
    subnormal numbers.
  \<^item> Logging is left out.
\<close>

type_synonym path = string
type_synonym datetime = int

record WorktreeInfo =
  agent_id :: string
  path :: path
  branch :: string
  created_at :: datetime
  last_active :: datetime
  status :: string

record ConflictFile =
  cf_path :: string
  conflict_type :: string
  our_version :: "string option"
  their_version :: "string option"
  base_version :: "string option"

text \<open>
  The exceptions the module raises or lets through: \<^verbatim>\<open>ValueError(message)\<close>,
  \<^verbatim>\<open>subprocess.CalledProcessError(returncode, cmd, output, stderr)\<close> from a
  \<^verbatim>\<open>subprocess.run(..., check=True)\<close> that exits nonzero, and \<^verbatim>\<open>sqlite3.IntegrityError\<close>
  from an \<^verbatim>\<open>INSERT\<close> that violates the primary key.
\<close>

datatype error =
    ValueError string
  | CalledProcessError int "string list" string string
  | IntegrityError string

section \<open>The external collaborators\<close>

text \<open>What \<^verbatim>\<open>subprocess.run(..., capture_output=True, text=True)\<close> returns.\<close>

record CompletedProcess =
  returncode :: int
  stdout :: string
  stderr :: string

text \<open>
  The environment: \<open>subprocess_run cmd cwd g\<close> runs the command line \<open>cmd\<close> in directory
  \<open>cwd\<close> on the state \<open>g\<close> of everything outside the process (repository, file system)
  and returns the completed process with the new outside state; \<open>joinpath\<close> is pathlib's
  \<^verbatim>\<open>/\<close>.
\<close>

record 'g env =
  subprocess_run :: "string list \<Rightarrow> path \<Rightarrow> 'g \<Rightarrow> CompletedProcess \<times> 'g"
  joinpath :: "path \<Rightarrow> string \<Rightarrow> path"

text \<open>The attributes of a \<^verbatim>\<open>GitWorktreeManager\<close> set by \<^verbatim>\<open>__init__\<close>.\<close>

record GitWorktreeManager =
  repo_path :: path
  worktree_base_dir :: path
  db_path :: path

text \<open>
  The state the operations act on: the rows of table \<^verbatim>\<open>worktrees\<close> in the database at
  \<open>db_path\<close>, in insertion (rowid) order; the outside state; and the log of the command
  lines handed to \<^verbatim>\<open>subprocess.run\<close> so far, oldest first.
\<close>

record 'g state =
  db :: "WorktreeInfo list"
  git :: "'g"
  calls :: "string list list"

section \<open>String primitives of Python\<close>

text \<open>\<^verbatim>\<open>str.isspace\<close> on one character, for the code points below 256.\<close>

definition isspace :: "char \<Rightarrow> bool" where
  "isspace c = ((of_char c :: nat) \<in> {9, 10, 11, 12, 13, 28, 29, 30, 31, 32, 133, 160})"

text \<open>\<^verbatim>\<open>str.lower\<close>, for the code points below 256: A-Z and the Latin-1 capitals.\<close>

definition lower_char :: "char \<Rightarrow> char" where
  "lower_char c =
     (let n = (of_char c :: nat)
      in if (65 \<le> n \<and> n \<le> 90) \<or> (192 \<le> n \<and> n \<le> 222 \<and> n \<noteq> 215)
         then char_of (n + 32) else c)"

definition lower :: "string \<Rightarrow> string" where
  "lower s = map lower_char s"

text \<open>\<^verbatim>\<open>s.startswith(p)\<close>.\<close>

definition startswith :: "string \<Rightarrow> string \<Rightarrow> bool" where
  "startswith s p = (take (length p) s = p)"

text \<open>\<^verbatim>\<open>p in s\<close> for strings: \<open>p\<close> occurs in \<open>s\<close> as a contiguous substring.\<close>

fun contains :: "string \<Rightarrow> string \<Rightarrow> bool" where
  "contains p [] = (p = [])"
| "contains p (c # cs) = (startswith (c # cs) p \<or> contains p cs)"

text \<open>\<^verbatim>\<open>s.split(d)\<close> for a one-character separator: never the empty list.\<close>

fun split_on :: "char \<Rightarrow> string \<Rightarrow> string list" where
  "split_on d [] = [[]]"
| "split_on d (c # cs) =
     (if c = d then [] # split_on d cs
      else (case split_on d cs of [] \<Rightarrow> [[c]] | l # ls \<Rightarrow> (c # l) # ls))"

text \<open>
  \<^verbatim>\<open>s.split()\<close>: the maximal runs of non-whitespace characters. \<open>split_acc cur s\<close> holds
  the run read so far in \<open>cur\<close>.
\<close>

fun split_acc :: "string \<Rightarrow> string \<Rightarrow> string list" where
  "split_acc cur [] = (if cur = [] then [] else [cur])"
| "split_acc cur (c # cs) =
     (if isspace c then (if cur = [] then split_acc [] cs else cur # split_acc [] cs)
      else split_acc (cur @ [c]) cs)"

definition split_ws :: "string \<Rightarrow> string list" where
  "split_ws s = split_acc [] s"

section \<open>The table \<^verbatim>\<open>worktrees\<close>\<close>

text \<open>
  \<^verbatim>\<open>SELECT ... WHERE agent_id = ?\<close> with \<^verbatim>\<open>fetchone\<close> (method \<^verbatim>\<open>_get_worktree\<close>): the
  first matching row, or \<^verbatim>\<open>None\<close>.
\<close>

definition get_worktree :: "string \<Rightarrow> WorktreeInfo list \<Rightarrow> WorktreeInfo option" where
  "get_worktree a rows = find (\<lambda>r. agent_id r = a) rows"

text \<open>\<^verbatim>\<open>INSERT INTO worktrees\<close>: \<^verbatim>\<open>agent_id\<close> is the primary key.\<close>

definition db_insert :: "WorktreeInfo \<Rightarrow> WorktreeInfo list \<Rightarrow> error + WorktreeInfo list" where
  "db_insert r rows =
     (if agent_id r \<in> set (map agent_id rows)
      then Inl (IntegrityError ''UNIQUE constraint failed: worktrees.agent_id'')
      else Inr (rows @ [r]))"

text \<open>\<^verbatim>\<open>DELETE FROM worktrees WHERE agent_id = ?\<close>.\<close>

definition db_delete :: "string \<Rightarrow> WorktreeInfo list \<Rightarrow> WorktreeInfo list" where
  "db_delete a rows = filter (\<lambda>r. agent_id r \<noteq> a) rows"

text \<open>\<^verbatim>\<open>UPDATE worktrees SET last_active = ? WHERE agent_id = ?\<close>.\<close>

definition db_touch :: "datetime \<Rightarrow> string \<Rightarrow> WorktreeInfo list \<Rightarrow> WorktreeInfo list" where
  "db_touch t a rows = map (\<lambda>r. if agent_id r = a then r\<lparr>last_active := t\<rparr> else r) rows"

text \<open>
  \<^verbatim>\<open>SELECT ... ORDER BY created_at DESC\<close> (method \<^verbatim>\<open>list_worktrees\<close>). SQL leaves the
  order of rows with equal \<^verbatim>\<open>created_at\<close> open; the stable sort keeps them in rowid order.
\<close>

definition list_worktrees :: "'g state \<Rightarrow> WorktreeInfo list" where
  "list_worktrees s = sort_key (\<lambda>r. - created_at r) (db s)"

section \<open>Running git\<close>

text \<open>
  \<^verbatim>\<open>subprocess.run(cmd, cwd=..., check=False, ...)\<close>: the call is logged, the outside state
  moves on.
\<close>

definition run :: "'g env \<Rightarrow> string list \<Rightarrow> path \<Rightarrow> 'g state \<Rightarrow> CompletedProcess \<times> 'g state" where
  "run E cmd cwd s =
     (let (res, g') = subprocess_run E cmd cwd (git s)
      in (res, s\<lparr>git := g', calls := calls s @ [cmd]\<rparr>))"

text \<open>With \<^verbatim>\<open>check=True\<close> a nonzero exit status raises \<^verbatim>\<open>CalledProcessError\<close>.\<close>

definition run_check ::
  "'g env \<Rightarrow> string list \<Rightarrow> path \<Rightarrow> 'g state \<Rightarrow> (error + CompletedProcess) \<times> 'g state" where
  "run_check E cmd cwd s =
     (let (res, s') = run E cmd cwd s
      in if returncode res \<noteq> 0
         then (Inl (CalledProcessError (returncode res) cmd (stdout res) (stderr res)), s')
         else (Inr res, s'))"

section \<open>The operations of \<^verbatim>\<open>GitWorktreeManager\<close>\<close>

text \<open>
  \<^verbatim>\<open>create_worktree(agent_id, base_branch)\<close>. The clock is read after
  \<^verbatim>\<open>git worktree add\<close> has succeeded. An exception leaves the function at the statement
  that raised it; the \<^verbatim>\<open>except\<close> clause logs and re-raises.
\<close>

definition create_worktree ::
  "'g env \<Rightarrow> GitWorktreeManager \<Rightarrow> datetime \<Rightarrow> string \<Rightarrow> string \<Rightarrow> 'g state
     \<Rightarrow> (error + path) \<times> 'g state" where
  "create_worktree E self now a base_branch s =
     (case get_worktree a (db s) of
        Some existing \<Rightarrow>
          (Inl (ValueError (''Worktree already exists for agent '' @ a @ '': '' @ path existing)), s)
      | None \<Rightarrow>
          (let worktree_path = joinpath E (worktree_base_dir self) (''worktree-'' @ a);
               branch_name = ''agent-'' @ a
           in case run_check E
                     [''git'', ''worktree'', ''add'', worktree_path, ''-b'', branch_name, base_branch]
                     (repo_path self) s of
                (Inl e, s1) \<Rightarrow> (Inl e, s1)
              | (Inr _, s1) \<Rightarrow>
                  (case db_insert
                          \<lparr>agent_id = a, path = worktree_path, branch = branch_name,
                           created_at = now, last_active = now, status = ''active''\<rparr>
                          (db s1) of
                     Inl e \<Rightarrow> (Inl e, s1)
                   | Inr rows \<Rightarrow> (Inr worktree_path, s1\<lparr>db := rows\<rparr>))))"

text \<open>\<^verbatim>\<open>remove_worktree(agent_id, force)\<close>.\<close>

definition remove_worktree ::
  "'g env \<Rightarrow> GitWorktreeManager \<Rightarrow> string \<Rightarrow> bool \<Rightarrow> 'g state \<Rightarrow> (error + unit) \<times> 'g state" where
  "remove_worktree E self a force s =
     (case get_worktree a (db s) of
        None \<Rightarrow> (Inl (ValueError (''Worktree does not exist for agent '' @ a)), s)
      | Some worktree \<Rightarrow>
          (let cmd = [''git'', ''worktree'', ''remove'', path worktree]
                       @ (if force then [''--force''] else [])
           in case run_check E cmd (repo_path self) s of
                (Inl e, s1) \<Rightarrow> (Inl e, s1)
              | (Inr _, s1) \<Rightarrow>
                  (case run_check E [''git'', ''branch'', ''-D'', branch worktree]
                          (repo_path self) s1 of
                     (Inl e, s2) \<Rightarrow> (Inl e, s2)
                   | (Inr _, s2) \<Rightarrow> (Inr (), s2\<lparr>db := db_delete a (db s2)\<rparr>))))"

text \<open>
  The loop of \<^verbatim>\<open>detect_conflicts\<close> over the lines of the report; \<open>conflicts\<close> is the list
  built so far.
\<close>

fun scan_lines :: "string list \<Rightarrow> ConflictFile list \<Rightarrow> ConflictFile list" where
  "scan_lines [] conflicts = conflicts"
| "scan_lines (line # lines) conflicts =
     (if startswith line ''changed in both''
      then (let parts = split_ws line
            in if length parts \<ge> 4
               then scan_lines lines
                      (conflicts @
                        [\<lparr>cf_path = last parts, conflict_type = ''content'',
                          our_version = None, their_version = None, base_version = None\<rparr>])
               else scan_lines lines conflicts)
      else scan_lines lines conflicts)"

text \<open>The condition under which \<^verbatim>\<open>detect_conflicts\<close> reads the report at all.\<close>

definition has_conflicts :: "CompletedProcess \<Rightarrow> bool" where
  "has_conflicts result = (returncode result \<noteq> 0 \<or> contains ''conflict'' (lower (stdout result)))"

text \<open>\<^verbatim>\<open>detect_conflicts(agent_id, target_branch)\<close>.\<close>

definition detect_conflicts ::
  "'g env \<Rightarrow> GitWorktreeManager \<Rightarrow> string \<Rightarrow> string \<Rightarrow> 'g state
     \<Rightarrow> (error + ConflictFile list) \<times> 'g state" where
  "detect_conflicts E self a target_branch s =
     (case get_worktree a (db s) of
        None \<Rightarrow> (Inl (ValueError (''Worktree does not exist for agent '' @ a)), s)
      | Some worktree \<Rightarrow>
          (let (result, s1) = run E [''git'', ''merge-tree'', target_branch, branch worktree]
                                (repo_path self) s
           in if has_conflicts result
              then (Inr (scan_lines (split_on (CHR 0x0A) (stdout result)) []), s1)
              else (Inr [], s1)))"

text \<open>\<^verbatim>\<open>update_last_active(agent_id)\<close>: one \<^verbatim>\<open>UPDATE\<close>, nothing is raised.\<close>

definition update_last_active ::
  "datetime \<Rightarrow> string \<Rightarrow> 'g state \<Rightarrow> (error + unit) \<times> 'g state" where
  "update_last_active now a s = (Inr (), s\<lparr>db := db_touch now a (db s)\<rparr>)"








section \<open>Example data\<close>

text \<open>
  A manager, some table contents and a family of environments on which the theorems
  below are run. \<open>canned tbl\<close> answers a command line listed in \<open>tbl\<close> with the completed
  process given there and every other one with exit status 0 and no output; its pathlib
  joins with a slash.
\<close>

definition ok :: CompletedProcess where
  "ok = \<lparr>returncode = 0, stdout = [], stderr = []\<rparr>"

definition canned :: "(string list \<times> CompletedProcess) list \<Rightarrow> unit env" where
  "canned tbl =
     \<lparr>subprocess_run = (\<lambda>cmd cwd g. (case map_of tbl cmd of Some r \<Rightarrow> r | None \<Rightarrow> ok, g)),
      joinpath = (\<lambda>b n. b @ ''/'' @ n)\<rparr>"

definition demo_manager :: GitWorktreeManager where
  "demo_manager =
     \<lparr>repo_path = ''/repo'', worktree_base_dir = ''/wt'', db_path = ''/repo/.worktrees.db''\<rparr>"

definition empty_state :: "unit state" where
  "empty_state = \<lparr>db = [], git = (), calls = []\<rparr>"

definition row_a1 :: WorktreeInfo where
  "row_a1 = \<lparr>agent_id = ''a1'', path = ''/wt/worktree-a1'', branch = ''agent-a1'',
             created_at = 100, last_active = 100, status = ''active''\<rparr>"

definition state_a1 :: "unit state" where
  "state_a1 = \<lparr>db = [row_a1], git = (), calls = []\<rparr>"




section \<open>Lookups in the table\<close>

lemma get_worktree_None: "get_worktree a rows = None \<longleftrightarrow> a \<notin> agent_id ` set rows"
  by (auto simp: get_worktree_def find_None_iff)

lemma get_worktree_delete: "get_worktree a (db_delete a rows) = None"
  by (auto simp: get_worktree_None db_delete_def)

lemma get_worktree_append_new:
  "get_worktree a rows = None \<Longrightarrow> agent_id r = a \<Longrightarrow> get_worktree a (rows @ [r]) = Some r"
  by (induction rows) (auto simp: get_worktree_def split: if_splits)

section \<open>Creating a worktree\<close>

text \<open>What a call that gets past the existence check and a successful \<^verbatim>\<open>git worktree add\<close> does.\<close>

lemma create_worktree_ok:
  assumes "get_worktree a (db s) = None"
    and "subprocess_run E
           [''git'', ''worktree'', ''add'', joinpath E (worktree_base_dir self) (''worktree-'' @ a),
            ''-b'', ''agent-'' @ a, base_branch] (repo_path self) (git s) = (res, g')"
    and "returncode res = 0"
  shows "create_worktree E self now a base_branch s =
           (Inr (joinpath E (worktree_base_dir self) (''worktree-'' @ a)),
            s\<lparr>git := g',
              calls := calls s @
                [[''git'', ''worktree'', ''add'',
                  joinpath E (worktree_base_dir self) (''worktree-'' @ a),
                  ''-b'', ''agent-'' @ a, base_branch]],
              db := db s @
                [\<lparr>agent_id = a, path = joinpath E (worktree_base_dir self) (''worktree-'' @ a),
                  branch = ''agent-'' @ a, created_at = now, last_active = now,
                  status = ''active''\<rparr>]\<rparr>)"
proof -
  have "a \<notin> set (map agent_id (db s))"
    using assms(1) by (simp add: get_worktree_None)
  with assms show ?thesis
    by (simp add: create_worktree_def run_check_def run_def db_insert_def Let_def)
qed

text \<open>A call returns a path only along that route.\<close>

lemma create_worktree_Inr:
  assumes "create_worktree E self now a base_branch s = (Inr p, s1)"
  shows "get_worktree a (db s) = None
         \<and> p = joinpath E (worktree_base_dir self) (''worktree-'' @ a)
         \<and> db s1 = db s @ [\<lparr>agent_id = a, path = p, branch = ''agent-'' @ a,
                             created_at = now, last_active = now, status = ''active''\<rparr>]"
proof -
  have none: "get_worktree a (db s) = None"
    using assms by (auto simp: create_worktree_def split: option.splits)
  obtain res g' where r: "subprocess_run E
           [''git'', ''worktree'', ''add'', joinpath E (worktree_base_dir self) (''worktree-'' @ a),
            ''-b'', ''agent-'' @ a, base_branch] (repo_path self) (git s) = (res, g')"
    by (cases "subprocess_run E
           [''git'', ''worktree'', ''add'', joinpath E (worktree_base_dir self) (''worktree-'' @ a),
            ''-b'', ''agent-'' @ a, base_branch] (repo_path self) (git s)")
  have rc: "returncode res = 0"
    using assms none r
    by (auto simp: create_worktree_def run_check_def run_def Let_def split: if_splits)
  from create_worktree_ok [OF none r rc, of now] assms none show ?thesis
    by auto
qed

text \<open>
  Claim C5. When \<^verbatim>\<open>git worktree add\<close> exits nonzero, \<^verbatim>\<open>create_worktree\<close> raises the
  \<^verbatim>\<open>CalledProcessError\<close> of that run (the specification's VcsOperationError), which
  carries git's exit status, the command line, its standard output and its standard
  error, the diagnostic text; the table after the call is the table before it. Only the
  call log and the outside state have moved.
\<close>

theorem create_worktree_git_failure:
  assumes "get_worktree a (db s) = None"
    and "cmd = [''git'', ''worktree'', ''add'', joinpath E (worktree_base_dir self) (''worktree-'' @ a),
                ''-b'', ''agent-'' @ a, base_branch]"
    and "subprocess_run E cmd (repo_path self) (git s) = (res, g')"
    and "returncode res \<noteq> 0"
  shows "create_worktree E self now a base_branch s =
           (Inl (CalledProcessError (returncode res) cmd (stdout res) (stderr res)),
            s\<lparr>git := g', calls := calls s @ [cmd]\<rparr>)
         \<and> db (snd (create_worktree E self now a base_branch s)) = db s"
  using assms by (simp add: create_worktree_def run_check_def run_def Let_def)

theorem create_worktree_git_failure_witness:
  "get_worktree ''a1'' (db empty_state) = None \<and>
   create_worktree
     (canned [([''git'', ''worktree'', ''add'', ''/wt/worktree-a1'', ''-b'', ''agent-a1'', ''nope''],
               \<lparr>returncode = 128, stdout = [], stderr = ''fatal: invalid reference: nope''\<rparr>)])
     demo_manager 100 ''a1'' ''nope'' empty_state =
     (Inl (CalledProcessError 128
             [''git'', ''worktree'', ''add'', ''/wt/worktree-a1'', ''-b'', ''agent-a1'', ''nope'']
             [] ''fatal: invalid reference: nope''),
      \<lparr>db = [], git = (),
       calls = [[''git'', ''worktree'', ''add'', ''/wt/worktree-a1'', ''-b'', ''agent-a1'', ''nope'']]\<rparr>)"
proof -
  let ?cmd = "[''git'', ''worktree'', ''add'', ''/wt/worktree-a1'', ''-b'', ''agent-a1'', ''nope'']"
  let ?res = "\<lparr>returncode = 128, stdout = [], stderr = ''fatal: invalid reference: nope''\<rparr>"
  let ?E = "canned [(?cmd, ?res)]"
  have h1: "get_worktree ''a1'' (db empty_state) = None"
    by (simp add: get_worktree_def empty_state_def)
  have h2: "?cmd = [''git'', ''worktree'', ''add'',
                    joinpath ?E (worktree_base_dir demo_manager) (''worktree-'' @ ''a1''),
                    ''-b'', ''agent-'' @ ''a1'', ''nope'']"
    by (simp add: canned_def demo_manager_def)
  have h3: "subprocess_run ?E ?cmd (repo_path demo_manager) (git empty_state) = (?res, ())"
    by (simp add: canned_def)
  have h4: "returncode ?res \<noteq> 0"
    by simp
  from create_worktree_git_failure [OF h1 h2 h3 h4, of 100] h1
  show ?thesis by (simp add: empty_state_def)
qed

text \<open>
  Claim C8. For an agent without a row, when \<^verbatim>\<open>git worktree add\<close> exits with status 0
  the call returns \<open>worktree_base_dir / ("worktree-" + agent_id)\<close>, and afterwards both the
  lookup of the agent and the listing hold the row with that path, branch
  \<open>"agent-" + agent_id\<close>, status \<open>active\<close> and \<open>created_at = last_active\<close> (the one clock
  reading of the call).
\<close>

theorem create_worktree_success:
  assumes "get_worktree a (db s) = None"
    and "subprocess_run E
           [''git'', ''worktree'', ''add'', joinpath E (worktree_base_dir self) (''worktree-'' @ a),
            ''-b'', ''agent-'' @ a, base_branch] (repo_path self) (git s) = (res, g')"
    and "returncode res = 0"
    and "p = joinpath E (worktree_base_dir self) (''worktree-'' @ a)"
    and "wt = \<lparr>agent_id = a, path = p, branch = ''agent-'' @ a,
               created_at = now, last_active = now, status = ''active''\<rparr>"
    and "s' = snd (create_worktree E self now a base_branch s)"
  shows "fst (create_worktree E self now a base_branch s) = Inr p
         \<and> get_worktree a (db s') = Some wt
         \<and> wt \<in> set (list_worktrees s')
         \<and> status wt = ''active''
         \<and> created_at wt = last_active wt"
proof -
  have "get_worktree a (db s @ [wt]) = Some wt"
    using assms(1) assms(5) by (simp add: get_worktree_append_new)
  with create_worktree_ok [OF assms(1-3), of now] assms(4-6) show ?thesis
    by (simp add: list_worktrees_def)
qed

theorem create_worktree_success_witness:
  "get_worktree ''a1'' (db empty_state) = None \<and>
   fst (create_worktree (canned []) demo_manager 100 ''a1'' ''main'' empty_state) = Inr ''/wt/worktree-a1'' \<and>
   get_worktree ''a1'' (db (snd (create_worktree (canned []) demo_manager 100 ''a1'' ''main'' empty_state)))
     = Some row_a1 \<and>
   row_a1 \<in> set (list_worktrees (snd (create_worktree (canned []) demo_manager 100 ''a1'' ''main'' empty_state))) \<and>
   status row_a1 = ''active'' \<and> created_at row_a1 = last_active row_a1"
proof -
  have h1: "get_worktree ''a1'' (db empty_state) = None"
    by (simp add: get_worktree_def empty_state_def)
  have h2: "subprocess_run (canned [])
              [''git'', ''worktree'', ''add'',
               joinpath (canned []) (worktree_base_dir demo_manager) (''worktree-'' @ ''a1''),
               ''-b'', ''agent-'' @ ''a1'', ''main''] (repo_path demo_manager) (git empty_state) = (ok, ())"
    by (simp add: canned_def)
  have h3: "returncode ok = 0"
    by (simp add: ok_def)
  have h4: "''/wt/worktree-a1'' = joinpath (canned []) (worktree_base_dir demo_manager) (''worktree-'' @ ''a1'')"
    by (simp add: canned_def demo_manager_def)
  have h5: "row_a1 = \<lparr>agent_id = ''a1'', path = ''/wt/worktree-a1'', branch = ''agent-'' @ ''a1'',
               created_at = 100, last_active = 100, status = ''active''\<rparr>"
    by (simp add: row_a1_def)
  from create_worktree_success [OF h1 h2 h3 h4 h5 refl] h1
  show ?thesis by (simp add: row_a1_def)
qed

text \<open>
  Claim C7. After a successful \<^verbatim>\<open>create_worktree\<close> for an agent, a second call for the
  same agent (whatever the clock and the base branch) raises the \<^verbatim>\<open>ValueError\<close>
  "Worktree already exists ..." (the specification's AlreadyExistsError) and returns the
  state it was given: nothing is run, so the call log and the outside state are the same,
  and so is the table.
\<close>

theorem create_worktree_twice:
  assumes "create_worktree E self now a base_branch s = (Inr p, s1)"
  shows "create_worktree E self now' a base_branch' s1 =
           (Inl (ValueError (''Worktree already exists for agent '' @ a @ '': '' @ p)), s1)"
proof -
  let ?wt = "\<lparr>agent_id = a, path = p, branch = ''agent-'' @ a,
               created_at = now, last_active = now, status = ''active''\<rparr>"
  from create_worktree_Inr [OF assms]
  have none: "get_worktree a (db s) = None" and rows: "db s1 = db s @ [?wt]"
    by simp_all
  have "get_worktree a (db s1) = Some ?wt"
    using none rows by (simp add: get_worktree_append_new)
  then show ?thesis
    by (simp add: create_worktree_def)
qed

theorem create_worktree_twice_witness:
  "create_worktree (canned []) demo_manager 100 ''a1'' ''main'' empty_state =
     (Inr ''/wt/worktree-a1'',
      \<lparr>db = [row_a1], git = (),
       calls = [[''git'', ''worktree'', ''add'', ''/wt/worktree-a1'', ''-b'', ''agent-a1'', ''main'']]\<rparr>) \<and>
   create_worktree (canned []) demo_manager 250 ''a1'' ''main''
     \<lparr>db = [row_a1], git = (),
      calls = [[''git'', ''worktree'', ''add'', ''/wt/worktree-a1'', ''-b'', ''agent-a1'', ''main'']]\<rparr> =
     (Inl (ValueError ''Worktree already exists for agent a1: /wt/worktree-a1''),
      \<lparr>db = [row_a1], git = (),
       calls = [[''git'', ''worktree'', ''add'', ''/wt/worktree-a1'', ''-b'', ''agent-a1'', ''main'']]\<rparr>)"
proof -
  have h: "create_worktree (canned []) demo_manager 100 ''a1'' ''main'' empty_state =
     (Inr ''/wt/worktree-a1'',
      \<lparr>db = [row_a1], git = (),
       calls = [[''git'', ''worktree'', ''add'', ''/wt/worktree-a1'', ''-b'', ''agent-a1'', ''main'']]\<rparr>)"
    by (simp add: create_worktree_def get_worktree_def empty_state_def canned_def demo_manager_def
        run_check_def run_def ok_def db_insert_def row_a1_def Let_def)
  from create_worktree_twice [OF h, of 250 "''main''"] h
  show ?thesis by simp
qed

section \<open>Removing a worktree\<close>

text \<open>
  Claim C9. \<^verbatim>\<open>remove_worktree\<close> on an agent without a row raises the \<^verbatim>\<open>ValueError\<close>
  "Worktree does not exist ..." (the specification's NotFoundError) and returns the state
  it was given: no command line is added to the log, the outside state and the table are
  the same.
\<close>

theorem remove_worktree_unknown:
  "get_worktree a (db s) = None \<Longrightarrow>
   remove_worktree E self a force s =
     (Inl (ValueError (''Worktree does not exist for agent '' @ a)), s)"
  by (simp add: remove_worktree_def)

theorem remove_worktree_unknown_witness:
  "get_worktree ''ghost'' (db state_a1) = None \<and>
   remove_worktree (canned []) demo_manager ''ghost'' False state_a1 =
     (Inl (ValueError ''Worktree does not exist for agent ghost''), state_a1) \<and>
   calls state_a1 = []"
proof -
  have h: "get_worktree ''ghost'' (db state_a1) = None"
    by (simp add: get_worktree_def state_a1_def row_a1_def)
  from remove_worktree_unknown [OF h, of "canned []" demo_manager False] h
  show ?thesis by (simp add: state_a1_def)
qed

text \<open>
  The three ways through \<^verbatim>\<open>remove_worktree\<close> for an agent with a row: both git commands
  succeed; \<^verbatim>\<open>git worktree remove\<close> fails; it succeeds and \<^verbatim>\<open>git branch -D\<close> fails.
\<close>

lemma remove_worktree_ok:
  assumes "get_worktree a (db s) = Some wt"
    and "subprocess_run E ([''git'', ''worktree'', ''remove'', path wt] @ (if force then [''--force''] else []))
           (repo_path self) (git s) = (r1, g1)"
    and "subprocess_run E [''git'', ''branch'', ''-D'', branch wt] (repo_path self) g1 = (r2, g2)"
    and "returncode r1 = 0" and "returncode r2 = 0"
  shows "remove_worktree E self a force s =
           (Inr (),
            s\<lparr>git := g2,
              calls := calls s @
                [[''git'', ''worktree'', ''remove'', path wt] @ (if force then [''--force''] else []),
                 [''git'', ''branch'', ''-D'', branch wt]],
              db := db_delete a (db s)\<rparr>)"
  using assms by (simp add: remove_worktree_def run_check_def run_def Let_def)

lemma remove_worktree_fail1:
  assumes "get_worktree a (db s) = Some wt"
    and "subprocess_run E ([''git'', ''worktree'', ''remove'', path wt] @ (if force then [''--force''] else []))
           (repo_path self) (git s) = (r1, g1)"
    and "returncode r1 \<noteq> 0"
  shows "remove_worktree E self a force s =
           (Inl (CalledProcessError (returncode r1)
                   ([''git'', ''worktree'', ''remove'', path wt] @ (if force then [''--force''] else []))
                   (stdout r1) (stderr r1)),
            s\<lparr>git := g1,
              calls := calls s @
                [[''git'', ''worktree'', ''remove'', path wt] @ (if force then [''--force''] else [])]\<rparr>)"
  using assms by (simp add: remove_worktree_def run_check_def run_def Let_def)

lemma remove_worktree_fail2:
  assumes "get_worktree a (db s) = Some wt"
    and "subprocess_run E ([''git'', ''worktree'', ''remove'', path wt] @ (if force then [''--force''] else []))
           (repo_path self) (git s) = (r1, g1)"
    and "subprocess_run E [''git'', ''branch'', ''-D'', branch wt] (repo_path self) g1 = (r2, g2)"
    and "returncode r1 = 0" and "returncode r2 \<noteq> 0"
  shows "remove_worktree E self a force s =
           (Inl (CalledProcessError (returncode r2) [''git'', ''branch'', ''-D'', branch wt]
                   (stdout r2) (stderr r2)),
            s\<lparr>git := g2,
              calls := calls s @
                [[''git'', ''worktree'', ''remove'', path wt] @ (if force then [''--force''] else []),
                 [''git'', ''branch'', ''-D'', branch wt]]\<rparr>)"
  using assms by (simp add: remove_worktree_def run_check_def run_def Let_def)

text \<open>
  Claim C6. For an agent with a row, \<^verbatim>\<open>remove_worktree\<close> deletes the row exactly when the
  teardown (\<^verbatim>\<open>git worktree remove\<close>, then \<^verbatim>\<open>git branch -D\<close>) succeeds. When both exit
  with status 0 the call returns normally, the lookup of the agent gives nothing and the
  listing no longer holds it. When either exits nonzero the \<^verbatim>\<open>CalledProcessError\<close> of
  that run (the specification's VcsOperationError) is raised and the table, with the
  agent's row, is as before.
\<close>

theorem remove_worktree_record:
  assumes "get_worktree a (db s) = Some wt"
    and "rm = [''git'', ''worktree'', ''remove'', path wt] @ (if force then [''--force''] else [])"
    and "br = [''git'', ''branch'', ''-D'', branch wt]"
    and "subprocess_run E rm (repo_path self) (git s) = (r1, g1)"
    and "subprocess_run E br (repo_path self) g1 = (r2, g2)"
    and "out = fst (remove_worktree E self a force s)"
    and "s' = snd (remove_worktree E self a force s)"
  shows "(returncode r1 = 0 \<and> returncode r2 = 0 \<longrightarrow>
            out = Inr () \<and> db s' = filter (\<lambda>r. agent_id r \<noteq> a) (db s)
            \<and> get_worktree a (db s') = None \<and> a \<notin> agent_id ` set (list_worktrees s'))
       \<and> (returncode r1 \<noteq> 0 \<longrightarrow>
            out = Inl (CalledProcessError (returncode r1) rm (stdout r1) (stderr r1))
            \<and> db s' = db s \<and> get_worktree a (db s') = Some wt)
       \<and> (returncode r1 = 0 \<and> returncode r2 \<noteq> 0 \<longrightarrow>
            out = Inl (CalledProcessError (returncode r2) br (stdout r2) (stderr r2))
            \<and> db s' = db s \<and> get_worktree a (db s') = Some wt)"
proof (intro conjI impI)
  assume ok: "returncode r1 = 0 \<and> returncode r2 = 0"
  from remove_worktree_ok [OF assms(1) assms(4) [unfolded assms(2)] assms(5) [unfolded assms(3)]] ok
  have eq: "remove_worktree E self a force s =
           (Inr (), s\<lparr>git := g2, calls := calls s @ [rm, br], db := db_delete a (db s)\<rparr>)"
    by (simp add: assms(2,3))
  show "out = Inr ()" using eq assms(6) by simp
  show "db s' = filter (\<lambda>r. agent_id r \<noteq> a) (db s)" using eq assms(7) by (simp add: db_delete_def)
  show "get_worktree a (db s') = None" using eq assms(7) by (simp add: get_worktree_delete)
  then show "a \<notin> agent_id ` set (list_worktrees s')"
    by (simp add: get_worktree_None list_worktrees_def)
next
  assume f: "returncode r1 \<noteq> 0"
  from remove_worktree_fail1 [OF assms(1) assms(4) [unfolded assms(2)] f]
  have eq: "remove_worktree E self a force s =
           (Inl (CalledProcessError (returncode r1) rm (stdout r1) (stderr r1)),
            s\<lparr>git := g1, calls := calls s @ [rm]\<rparr>)"
    by (simp add: assms(2))
  show "out = Inl (CalledProcessError (returncode r1) rm (stdout r1) (stderr r1))"
    using eq assms(6) by simp
  show "db s' = db s" using eq assms(7) by simp
  then show "get_worktree a (db s') = Some wt" using assms(1) by simp
next
  assume f: "returncode r1 = 0 \<and> returncode r2 \<noteq> 0"
  from remove_worktree_fail2 [OF assms(1) assms(4) [unfolded assms(2)] assms(5) [unfolded assms(3)]] f
  have eq: "remove_worktree E self a force s =
           (Inl (CalledProcessError (returncode r2) br (stdout r2) (stderr r2)),
            s\<lparr>git := g2, calls := calls s @ [rm, br]\<rparr>)"
    by (simp add: assms(2,3))
  show "out = Inl (CalledProcessError (returncode r2) br (stdout r2) (stderr r2))"
    using eq assms(6) by simp
  show "db s' = db s" using eq assms(7) by simp
  then show "get_worktree a (db s') = Some wt" using assms(1) by simp
qed

theorem remove_worktree_record_witness:
  "get_worktree ''a1'' (db state_a1) = Some row_a1 \<and>
   fst (remove_worktree (canned []) demo_manager ''a1'' False state_a1) = Inr () \<and>
   db (snd (remove_worktree (canned []) demo_manager ''a1'' False state_a1)) = [] \<and>
   get_worktree ''a1'' (db (snd (remove_worktree (canned []) demo_manager ''a1'' False state_a1))) = None \<and>
   ''a1'' \<notin> agent_id ` set (list_worktrees (snd (remove_worktree (canned []) demo_manager ''a1'' False state_a1))) \<and>
   fst (remove_worktree
          (canned [([''git'', ''branch'', ''-D'', ''agent-a1''],
                    \<lparr>returncode = 1, stdout = [], stderr = ''error: branch not found''\<rparr>)])
          demo_manager ''a1'' False state_a1) =
     Inl (CalledProcessError 1 [''git'', ''branch'', ''-D'', ''agent-a1''] [] ''error: branch not found'') \<and>
   db (snd (remove_worktree
          (canned [([''git'', ''branch'', ''-D'', ''agent-a1''],
                    \<lparr>returncode = 1, stdout = [], stderr = ''error: branch not found''\<rparr>)])
          demo_manager ''a1'' False state_a1)) = [row_a1]"
proof -
  let ?rm = "[''git'', ''worktree'', ''remove'', path row_a1] @ (if False then [''--force''] else [])"
  let ?br = "[''git'', ''branch'', ''-D'', branch row_a1]"
  let ?bad = "\<lparr>returncode = 1, stdout = [], stderr = ''error: branch not found''\<rparr>"
  let ?F = "canned [([''git'', ''branch'', ''-D'', ''agent-a1''], ?bad)]"
  have h: "get_worktree ''a1'' (db state_a1) = Some row_a1"
    by (simp add: get_worktree_def state_a1_def row_a1_def)
  have a1: "subprocess_run (canned []) ?rm (repo_path demo_manager) (git state_a1) = (ok, ())"
    by (simp add: canned_def)
  have a2: "subprocess_run (canned []) ?br (repo_path demo_manager) () = (ok, ())"
    by (simp add: canned_def)
  have b1: "subprocess_run ?F ?rm (repo_path demo_manager) (git state_a1) = (ok, ())"
    by (simp add: canned_def row_a1_def)
  have b2: "subprocess_run ?F ?br (repo_path demo_manager) () = (?bad, ())"
    by (simp add: canned_def row_a1_def)
  have rows: "db state_a1 = [row_a1]" "agent_id row_a1 = ''a1''" "branch row_a1 = ''agent-a1''"
    by (simp_all add: state_a1_def row_a1_def)
  from remove_worktree_record [OF h refl refl a1 a2 refl refl]
       remove_worktree_record [OF h refl refl b1 b2 refl refl] h rows
  show ?thesis by (simp add: ok_def get_worktree_def)
qed

section \<open>Detecting conflicts\<close>

text \<open>
  The loop over the lines appends one record for every line that starts with
  "changed in both" and has at least four whitespace-delimited tokens, in order.
\<close>

lemma scan_lines_eq:
  "scan_lines ls acc =
     acc @ map (\<lambda>l. \<lparr>cf_path = last (split_ws l), conflict_type = ''content'',
                      our_version = None, their_version = None, base_version = None\<rparr>)
            (filter (\<lambda>l. startswith l ''changed in both'' \<and> 4 \<le> length (split_ws l)) ls)"
  by (induction ls arbitrary: acc) (simp_all add: Let_def)

text \<open>What \<^verbatim>\<open>detect_conflicts\<close> does for an agent with a row.\<close>

lemma detect_conflicts_run:
  assumes "get_worktree a (db s) = Some wt"
    and "subprocess_run E [''git'', ''merge-tree'', tb, branch wt] (repo_path self) (git s) = (res, g')"
  shows "detect_conflicts E self a tb s =
           (Inr (if returncode res \<noteq> 0 \<or> contains ''conflict'' (lower (stdout res))
                 then scan_lines (split_on (CHR 0x0A) (stdout res)) [] else []),
            s\<lparr>git := g', calls := calls s @ [[''git'', ''merge-tree'', tb, branch wt]]\<rparr>)"
  using assms by (simp add: detect_conflicts_def run_def has_conflicts_def)

text \<open>Every list it returns comes out of the loop.\<close>

lemma detect_conflicts_Inr:
  assumes "fst (detect_conflicts E self a tb s) = Inr cs"
  shows "\<exists>ls. cs = scan_lines ls []"
proof (cases "get_worktree a (db s)")
  case None
  with assms show ?thesis by (simp add: detect_conflicts_def)
next
  case (Some wt)
  obtain res g' where "subprocess_run E [''git'', ''merge-tree'', tb, branch wt] (repo_path self) (git s) = (res, g')"
    by (cases "subprocess_run E [''git'', ''merge-tree'', tb, branch wt] (repo_path self) (git s)")
  from detect_conflicts_run [OF Some this] assms
  have "cs = scan_lines (split_on (CHR 0x0A) (stdout res)) [] \<or> cs = scan_lines [] []"
    by (simp split: if_splits)
  then show ?thesis by blast
qed

text \<open>
  Claim C10. Every \<^verbatim>\<open>ConflictFile\<close> in a list returned by \<^verbatim>\<open>detect_conflicts\<close> has
  \<open>conflict_type = "content"\<close> and no \<open>our_version\<close>, \<open>their_version\<close> or \<open>base_version\<close>.
\<close>

theorem detect_conflicts_content_only:
  assumes "fst (detect_conflicts E self a tb s) = Inr cs"
  shows "\<forall>c \<in> set cs. conflict_type c = ''content'' \<and> our_version c = None
                      \<and> their_version c = None \<and> base_version c = None"
proof -
  from detect_conflicts_Inr [OF assms] obtain ls where "cs = scan_lines ls []" ..
  then show ?thesis by (auto simp: scan_lines_eq)
qed

theorem detect_conflicts_content_only_witness:
  "fst (detect_conflicts
          (canned [([''git'', ''merge-tree'', ''main'', ''agent-a1''],
                    \<lparr>returncode = 1, stdout = ''changed in both 100644 ab12 src/app.py'', stderr = []\<rparr>)])
          demo_manager ''a1'' ''main'' state_a1) =
     Inr [\<lparr>cf_path = ''src/app.py'', conflict_type = ''content'',
           our_version = None, their_version = None, base_version = None\<rparr>]"
proof -
  let ?E = "canned [([''git'', ''merge-tree'', ''main'', ''agent-a1''],
                    \<lparr>returncode = 1, stdout = ''changed in both 100644 ab12 src/app.py'', stderr = []\<rparr>)]"
  obtain c where c: "\<exists>cs. fst (detect_conflicts ?E demo_manager ''a1'' ''main'' state_a1) = Inr (c # cs)"
    "cf_path c = ''src/app.py''" "ConflictFile.more c = ()"
    "\<forall>cs. fst (detect_conflicts ?E demo_manager ''a1'' ''main'' state_a1) = Inr (c # cs) \<longrightarrow> cs = []"
    by (simp add: detect_conflicts_def run_def has_conflicts_def canned_def state_a1_def row_a1_def
        get_worktree_def startswith_def split_ws_def isspace_def)
  then obtain cs where cs: "fst (detect_conflicts ?E demo_manager ''a1'' ''main'' state_a1) = Inr (c # cs)"
    by blast
  with c(4) have nil: "cs = []" by blast
  from detect_conflicts_content_only [OF cs]
  have "conflict_type c = ''content'' \<and> our_version c = None
          \<and> their_version c = None \<and> base_version c = None"
    by simp
  with c(2,3) have "c = \<lparr>cf_path = ''src/app.py'', conflict_type = ''content'',
           our_version = None, their_version = None, base_version = None\<rparr>"
    by (cases c) simp
  with cs nil show ?thesis by simp
qed

text \<open>
  Claim C4. For an agent with a row, \<^verbatim>\<open>detect_conflicts\<close> reads the report of
  \<^verbatim>\<open>git merge-tree\<close> exactly when git exits nonzero or the report, lower-cased, contains
  "conflict". When neither holds the result is the empty list; when either holds the
  result is what the scan of the report's lines yields. The table is never changed.
\<close>

theorem detect_conflicts_classification:
  assumes "get_worktree a (db s) = Some wt"
    and "subprocess_run E [''git'', ''merge-tree'', tb, branch wt] (repo_path self) (git s) = (res, g')"
  shows "(returncode res = 0 \<and> \<not> contains ''conflict'' (lower (stdout res)) \<longrightarrow>
            fst (detect_conflicts E self a tb s) = Inr [])
       \<and> (returncode res \<noteq> 0 \<or> contains ''conflict'' (lower (stdout res)) \<longrightarrow>
            fst (detect_conflicts E self a tb s) =
              Inr (map (\<lambda>l. \<lparr>cf_path = last (split_ws l), conflict_type = ''content'',
                               our_version = None, their_version = None, base_version = None\<rparr>)
                     (filter (\<lambda>l. startswith l ''changed in both'' \<and> 4 \<le> length (split_ws l))
                        (split_on (CHR 0x0A) (stdout res)))))
       \<and> db (snd (detect_conflicts E self a tb s)) = db s"
  using detect_conflicts_run [OF assms] by (simp add: scan_lines_eq)

theorem detect_conflicts_classification_witness:
  "get_worktree ''a1'' (db state_a1) = Some row_a1 \<and>
   fst (detect_conflicts (canned []) demo_manager ''a1'' ''main'' state_a1) = Inr [] \<and>
   fst (detect_conflicts
          (canned [([''git'', ''merge-tree'', ''main'', ''agent-a1''],
                    \<lparr>returncode = 0,
                     stdout = ''CONFLICT in f.txt'' @ [CHR 0x0A] @ ''changed in both  base f.txt'',
                     stderr = []\<rparr>)])
          demo_manager ''a1'' ''main'' state_a1) =
     Inr [\<lparr>cf_path = ''f.txt'', conflict_type = ''content'',
           our_version = None, their_version = None, base_version = None\<rparr>]"
proof -
  let ?out = "''CONFLICT in f.txt'' @ [CHR 0x0A] @ ''changed in both  base f.txt''"
  let ?res = "\<lparr>returncode = 0, stdout = ?out, stderr = []\<rparr>"
  let ?E = "canned [([''git'', ''merge-tree'', ''main'', ''agent-a1''], ?res)]"
  have h: "get_worktree ''a1'' (db state_a1) = Some row_a1"
    by (simp add: get_worktree_def state_a1_def row_a1_def)
  have a: "subprocess_run (canned []) [''git'', ''merge-tree'', ''main'', branch row_a1]
             (repo_path demo_manager) (git state_a1) = (ok, ())"
    by (simp add: canned_def)
  have b: "subprocess_run ?E [''git'', ''merge-tree'', ''main'', branch row_a1]
             (repo_path demo_manager) (git state_a1) = (?res, ())"
    by (simp add: canned_def row_a1_def)
  have clean: "returncode ok = 0 \<and> \<not> contains ''conflict'' (lower (stdout ok))"
    by (simp add: ok_def lower_def)
  have marked: "contains ''conflict'' (lower ?out)"
    by code_simp
  have lines: "split_on (CHR 0x0A) ?out = [''CONFLICT in f.txt'', ''changed in both  base f.txt'']"
    by simp
  have parts: "split_ws ''changed in both  base f.txt'' = [''changed'', ''in'', ''both'', ''base'', ''f.txt'']"
    by (simp add: split_ws_def isspace_def)
  from detect_conflicts_classification [OF h a] detect_conflicts_classification [OF h b]
       h clean marked
  show ?thesis
    by (simp add: lines parts startswith_def)
qed

text \<open>
  Claim C1, as stated, fails on the code in two ways. A report whose only line is
  "changed in both path/to/file.txt", from a git that exits with status 0, has no conflict
  marker, so the report is not read and the result is empty. And in a report that is read,
  a line "changed in both" with its file names on the following lines has three tokens,
  fewer than the four the code asks for, so it yields nothing although its last token is
  "both".
\<close>

theorem detect_conflicts_one_changed_line_counterexample:
  "get_worktree ''a1'' (db state_a1) = Some row_a1 \<and>
   filter (\<lambda>l. startswith l ''changed in both'')
     (split_on (CHR 0x0A) ''changed in both path/to/file.txt'') = [''changed in both path/to/file.txt''] \<and>
   last (split_ws ''changed in both path/to/file.txt'') = ''path/to/file.txt'' \<and>
   fst (detect_conflicts
          (canned [([''git'', ''merge-tree'', ''main'', ''agent-a1''],
                    \<lparr>returncode = 0, stdout = ''changed in both path/to/file.txt'', stderr = []\<rparr>)])
          demo_manager ''a1'' ''main'' state_a1) = Inr [] \<and>
   filter (\<lambda>l. startswith l ''changed in both'')
     (split_on (CHR 0x0A) (''changed in both'' @ [CHR 0x0A] @ ''  our    100644 ab12 f.txt''))
     = [''changed in both''] \<and>
   last (split_ws ''changed in both'') = ''both'' \<and>
   fst (detect_conflicts
          (canned [([''git'', ''merge-tree'', ''main'', ''agent-a1''],
                    \<lparr>returncode = 1,
                     stdout = ''changed in both'' @ [CHR 0x0A] @ ''  our    100644 ab12 f.txt'',
                     stderr = []\<rparr>)])
          demo_manager ''a1'' ''main'' state_a1) = Inr []"
proof -
  have h: "get_worktree ''a1'' (db state_a1) = Some row_a1"
    by (simp add: get_worktree_def state_a1_def row_a1_def)
  have a1: "filter (\<lambda>l. startswith l ''changed in both'')
     (split_on (CHR 0x0A) ''changed in both path/to/file.txt'') = [''changed in both path/to/file.txt'']"
    by (simp add: startswith_def)
  have a2: "last (split_ws ''changed in both path/to/file.txt'') = ''path/to/file.txt''"
    by (simp add: split_ws_def isspace_def)
  have a3: "\<not> contains ''conflict'' (lower ''changed in both path/to/file.txt'')"
    by code_simp
  have a4: "fst (detect_conflicts
          (canned [([''git'', ''merge-tree'', ''main'', ''agent-a1''],
                    \<lparr>returncode = 0, stdout = ''changed in both path/to/file.txt'', stderr = []\<rparr>)])
          demo_manager ''a1'' ''main'' state_a1) = Inr []"
    using a3
    by (simp add: detect_conflicts_def run_def has_conflicts_def canned_def state_a1_def row_a1_def
        get_worktree_def)
  have b1: "filter (\<lambda>l. startswith l ''changed in both'')
     (split_on (CHR 0x0A) (''changed in both'' @ [CHR 0x0A] @ ''  our    100644 ab12 f.txt''))
     = [''changed in both'']"
    by (simp add: startswith_def)
  have b2: "split_ws ''changed in both'' = [''changed'', ''in'', ''both'']"
    by (simp add: split_ws_def isspace_def)
  have b3: "fst (detect_conflicts
          (canned [([''git'', ''merge-tree'', ''main'', ''agent-a1''],
                    \<lparr>returncode = 1,
                     stdout = ''changed in both'' @ [CHR 0x0A] @ ''  our    100644 ab12 f.txt'',
                     stderr = []\<rparr>)])
          demo_manager ''a1'' ''main'' state_a1) = Inr []"
    by (simp add: detect_conflicts_def run_def has_conflicts_def canned_def state_a1_def row_a1_def
        get_worktree_def startswith_def b2)
  from h a1 a2 a4 b1 b2 b3 show ?thesis by simp
qed

text \<open>
  Claim C1, amended. For an agent with a row, if git exits nonzero or the report,
  lower-cased, contains "conflict", and exactly one line of the report starts with
  "changed in both", and that line has at least four whitespace-delimited tokens, the last
  being \<open>p\<close>, then \<^verbatim>\<open>detect_conflicts\<close> returns exactly one \<^verbatim>\<open>ConflictFile\<close>, with path \<open>p\<close>
  and \<open>conflict_type = "content"\<close>.
\<close>

theorem detect_conflicts_one_changed_line:
  assumes "get_worktree a (db s) = Some wt"
    and "subprocess_run E [''git'', ''merge-tree'', tb, branch wt] (repo_path self) (git s) = (res, g')"
    and "returncode res \<noteq> 0 \<or> contains ''conflict'' (lower (stdout res))"
    and "filter (\<lambda>l. startswith l ''changed in both'') (split_on (CHR 0x0A) (stdout res)) = [line]"
    and "4 \<le> length (split_ws line)"
    and "p = last (split_ws line)"
  shows "fst (detect_conflicts E self a tb s) =
           Inr [\<lparr>cf_path = p, conflict_type = ''content'',
                 our_version = None, their_version = None, base_version = None\<rparr>]"
proof -
  have "filter (\<lambda>l. startswith l ''changed in both'' \<and> 4 \<le> length (split_ws l))
          (split_on (CHR 0x0A) (stdout res))
        = filter (\<lambda>l. 4 \<le> length (split_ws l))
            (filter (\<lambda>l. startswith l ''changed in both'') (split_on (CHR 0x0A) (stdout res)))"
    by (simp add: conj_commute)
  also have "\<dots> = [line]"
    using assms(4,5) by simp
  finally show ?thesis
    using detect_conflicts_run [OF assms(1,2)] assms(3,6) by (simp add: scan_lines_eq)
qed

theorem detect_conflicts_one_changed_line_witness:
  "get_worktree ''a1'' (db state_a1) = Some row_a1 \<and>
   fst (detect_conflicts
          (canned [([''git'', ''merge-tree'', ''main'', ''agent-a1''],
                    \<lparr>returncode = 1, stdout = ''changed in both path/to/file.txt'', stderr = []\<rparr>)])
          demo_manager ''a1'' ''main'' state_a1) =
     Inr [\<lparr>cf_path = ''path/to/file.txt'', conflict_type = ''content'',
           our_version = None, their_version = None, base_version = None\<rparr>]"
proof -
  let ?out = "''changed in both path/to/file.txt''"
  let ?res = "\<lparr>returncode = 1, stdout = ?out, stderr = []\<rparr>"
  let ?E = "canned [([''git'', ''merge-tree'', ''main'', ''agent-a1''], ?res)]"
  have h: "get_worktree ''a1'' (db state_a1) = Some row_a1"
    by (simp add: get_worktree_def state_a1_def row_a1_def)
  have b: "subprocess_run ?E [''git'', ''merge-tree'', ''main'', branch row_a1]
             (repo_path demo_manager) (git state_a1) = (?res, ())"
    by (simp add: canned_def row_a1_def)
  have gate: "returncode ?res \<noteq> 0 \<or> contains ''conflict'' (lower (stdout ?res))"
    by simp
  have one: "filter (\<lambda>l. startswith l ''changed in both'') (split_on (CHR 0x0A) (stdout ?res)) = [?out]"
    by (simp add: startswith_def)
  have parts: "split_ws ?out = [''changed'', ''in'', ''both'', ''path/to/file.txt'']"
    by (simp add: split_ws_def isspace_def)
  have four: "4 \<le> length (split_ws ?out)"
    by (simp add: parts)
  have p: "''path/to/file.txt'' = last (split_ws ?out)"
    by (simp add: parts)
  from detect_conflicts_one_changed_line [OF h b gate one four p] h
  show ?thesis by simp
qed

section \<open>The heartbeat\<close>

text \<open>What the \<^verbatim>\<open>UPDATE\<close> does to the lookups.\<close>

lemma get_worktree_touch_same:
  "get_worktree a (db_touch t a rows) = map_option (\<lambda>r. r\<lparr>last_active := t\<rparr>) (get_worktree a rows)"
  by (induction rows) (simp_all add: get_worktree_def db_touch_def)

lemma get_worktree_touch_other:
  "b \<noteq> a \<Longrightarrow> get_worktree b (db_touch t a rows) = get_worktree b rows"
  by (induction rows) (simp_all add: get_worktree_def db_touch_def)

lemma db_touch_unknown:
  "get_worktree a rows = None \<Longrightarrow> db_touch t a rows = rows"
  by (induction rows) (simp_all add: get_worktree_def db_touch_def split: if_splits)

text \<open>
  Claim C3, as stated, fails on the code: \<^verbatim>\<open>update_last_active\<close> writes the clock reading
  whatever the stored value is. With the row's \<open>last_active\<close> at 100, a call whose clock
  reads 40 (a wall clock set back) stores 40, a decrease, and a call whose clock reads 100
  again (two readings within the clock's resolution) leaves the row as it was, no
  increase.
\<close>

theorem update_last_active_sets_clock_counterexample:
  "get_worktree ''a1'' (db state_a1) = Some row_a1 \<and>
   get_worktree ''a1'' (db (snd (update_last_active 40 ''a1'' state_a1)))
     = Some (row_a1\<lparr>last_active := 40\<rparr>) \<and>
   last_active (row_a1\<lparr>last_active := 40\<rparr>) < last_active row_a1 \<and>
   get_worktree ''a1'' (db (snd (update_last_active 100 ''a1'' state_a1))) = Some row_a1"
  by (simp add: update_last_active_def db_touch_def get_worktree_def state_a1_def row_a1_def)

text \<open>
  Claim C3, amended. \<^verbatim>\<open>update_last_active\<close> never raises. For an agent with a row it
  overwrites that row's \<open>last_active\<close> with the clock reading of the call and changes nothing
  else, so the stored timestamp strictly increases exactly when that reading is later than
  the stored one. The rows of other agents, the outside state and the call log are
  unchanged, and for an agent without a row the whole state is.
\<close>

theorem update_last_active_sets_clock:
  assumes "s' = snd (update_last_active now a s)"
  shows "fst (update_last_active now a s) = Inr ()
       \<and> (\<forall>wt. get_worktree a (db s) = Some wt \<longrightarrow>
             get_worktree a (db s') = Some (wt\<lparr>last_active := now\<rparr>)
             \<and> (last_active wt < last_active (wt\<lparr>last_active := now\<rparr>) \<longleftrightarrow> last_active wt < now))
       \<and> (\<forall>b. b \<noteq> a \<longrightarrow> get_worktree b (db s') = get_worktree b (db s))
       \<and> (get_worktree a (db s) = None \<longrightarrow> s' = s)
       \<and> git s' = git s \<and> calls s' = calls s"
  using assms
  by (simp add: update_last_active_def get_worktree_touch_same get_worktree_touch_other
      db_touch_unknown)

theorem update_last_active_sets_clock_witness:
  "get_worktree ''a1'' (db state_a1) = Some row_a1 \<and>
   fst (update_last_active 250 ''a1'' state_a1) = Inr () \<and>
   get_worktree ''a1'' (db (snd (update_last_active 250 ''a1'' state_a1)))
     = Some (row_a1\<lparr>last_active := 250\<rparr>) \<and>
   last_active row_a1 < last_active (row_a1\<lparr>last_active := 250\<rparr>) \<and>
   get_worktree ''ghost'' (db state_a1) = None \<and>
   update_last_active 250 ''ghost'' state_a1 = (Inr (), state_a1)"
proof -
  have h: "get_worktree ''a1'' (db state_a1) = Some row_a1"
    by (simp add: get_worktree_def state_a1_def row_a1_def)
  have g: "get_worktree ''ghost'' (db state_a1) = None"
    by (simp add: get_worktree_def state_a1_def row_a1_def)
  have old: "last_active row_a1 < 250"
    by (simp add: row_a1_def)
  from update_last_active_sets_clock [OF refl, of 250 "''a1''" state_a1]
       update_last_active_sets_clock [OF refl, of 250 "''ghost''" state_a1] h g old
  show ?thesis
    by (simp add: prod_eq_iff)
qed

section \<open>The staleness sweep\<close>






















text \<open>
  The operations that write the table keep the primary key: no two rows for one agent.
\<close>

lemma create_worktree_keeps_key:
  assumes "distinct (map agent_id (db s))"
  shows "distinct (map agent_id (db (snd (create_worktree E self now a base_branch s))))"
  using assms
  by (auto simp: create_worktree_def run_check_def run_def db_insert_def Let_def
      split: option.splits prod.splits sum.splits if_splits)

lemma remove_worktree_keeps_key:
  assumes "distinct (map agent_id (db s))"
  shows "distinct (map agent_id (db (snd (remove_worktree E self a force s))))"
  using assms
  by (auto simp: remove_worktree_def run_check_def run_def db_delete_def Let_def distinct_map_filter
      split: option.splits prod.splits sum.splits if_splits)

lemma update_last_active_keeps_key:
  assumes "distinct (map agent_id (db s))"
  shows "distinct (map agent_id (db (snd (update_last_active now a s))))"
proof -
  have "map agent_id (db_touch now a (db s)) = map agent_id (db s)"
    by (induction "db s") (simp_all add: db_touch_def)
  with assms show ?thesis by (simp add: update_last_active_def)
qed





end
